theory Spec2Isabelle
  imports Complex_Main "HOL-Library.Char_ord" "HOL-Library.List_Lexorder"
begin

section \<open>Python values used by finance_tracker.py\<close>

subsection \<open>Floats\<close>

text \<open>
  Amounts and limits are Python floats. A float is modelled as an exact rational, or one
  of the three special values that \<^verbatim>\<open>float()\<close> also produces from text
  (\<^verbatim>\<open>float("inf")\<close>, \<^verbatim>\<open>float("-inf")\<close>, \<^verbatim>\<open>float("nan")\<close>).
  Arithmetic on finite values is exact: rounding, overflow to infinity and the sign of
  zero are not modelled. The special values follow IEEE 754 as Python exposes it: every
  comparison with NaN is false, NaN is absorbing, and \<^verbatim>\<open>inf - inf\<close> is NaN.
\<close>

datatype pyfloat = Fin rat | PosInf | NegInf | NaN

datatype vmsg =
    DateFormat      \<comment> \<open>"Date must be in YYYY-MM-DD format"\<close>
  | AmountPositive  \<comment> \<open>"Amount must be a positive number"\<close>
  | TypeIncomeExpense  \<comment> \<open>"Transaction type must be 'income' or 'expense'"\<close>
  | LimitPositive   \<comment> \<open>"Budget limit must be a positive number"\<close>
  | NotAFloat       \<comment> \<open>"could not convert string to float", raised by float()\<close>

datatype error =
    ValueError vmsg
  | ZeroDivisionError
  | KeyError string
  | PermissionError

fun f_add :: "pyfloat \<Rightarrow> pyfloat \<Rightarrow> pyfloat" where
  "f_add NaN _ = NaN"
| "f_add _ NaN = NaN"
| "f_add (Fin a) (Fin b) = Fin (a + b)"
| "f_add PosInf NegInf = NaN"
| "f_add NegInf PosInf = NaN"
| "f_add PosInf _ = PosInf"
| "f_add _ PosInf = PosInf"
| "f_add NegInf _ = NegInf"
| "f_add _ NegInf = NegInf"

fun f_neg :: "pyfloat \<Rightarrow> pyfloat" where
  "f_neg (Fin a) = Fin (- a)"
| "f_neg PosInf = NegInf"
| "f_neg NegInf = PosInf"
| "f_neg NaN = NaN"

definition f_sub :: "pyfloat \<Rightarrow> pyfloat \<Rightarrow> pyfloat" where
  "f_sub a b = f_add a (f_neg b)"

fun f_scale :: "rat \<Rightarrow> pyfloat \<Rightarrow> pyfloat" where
  "f_scale a PosInf = (if a = 0 then NaN else if 0 < a then PosInf else NegInf)"
| "f_scale a NegInf = (if a = 0 then NaN else if 0 < a then NegInf else PosInf)"
| "f_scale a (Fin b) = Fin (a * b)"
| "f_scale a NaN = NaN"

fun f_mul :: "pyfloat \<Rightarrow> pyfloat \<Rightarrow> pyfloat" where
  "f_mul (Fin a) y = f_scale a y"
| "f_mul x (Fin b) = f_scale b x"
| "f_mul NaN _ = NaN"
| "f_mul _ NaN = NaN"
| "f_mul PosInf PosInf = PosInf"
| "f_mul NegInf NegInf = PosInf"
| "f_mul PosInf NegInf = NegInf"
| "f_mul NegInf PosInf = NegInf"

text \<open>\<^verbatim>\<open>a < b\<close> and \<^verbatim>\<open>a <= b\<close> on floats.\<close>

fun f_less :: "pyfloat \<Rightarrow> pyfloat \<Rightarrow> bool" where
  "f_less NaN _ = False"
| "f_less _ NaN = False"
| "f_less (Fin a) (Fin b) = (a < b)"
| "f_less _ NegInf = False"
| "f_less NegInf _ = True"
| "f_less PosInf _ = False"
| "f_less _ PosInf = True"

fun f_le :: "pyfloat \<Rightarrow> pyfloat \<Rightarrow> bool" where
  "f_le NaN _ = False"
| "f_le _ NaN = False"
| "f_le (Fin a) (Fin b) = (a \<le> b)"
| "f_le NegInf _ = True"
| "f_le _ NegInf = False"
| "f_le _ PosInf = True"
| "f_le PosInf _ = False"

text \<open>
  \<^verbatim>\<open>a / b\<close>: Python raises ZeroDivisionError whenever the divisor is zero, whatever the
  dividend.
\<close>

fun f_quot :: "pyfloat \<Rightarrow> pyfloat \<Rightarrow> pyfloat" where
  "f_quot NaN _ = NaN"
| "f_quot _ NaN = NaN"
| "f_quot (Fin a) (Fin b) = Fin (a / b)"
| "f_quot (Fin a) _ = Fin 0"
| "f_quot PosInf (Fin b) = (if 0 < b then PosInf else NegInf)"
| "f_quot NegInf (Fin b) = (if 0 < b then NegInf else PosInf)"
| "f_quot _ _ = NaN"

definition f_div :: "pyfloat \<Rightarrow> pyfloat \<Rightarrow> error + pyfloat" where
  "f_div a b = (if b = Fin 0 then Inl ZeroDivisionError else Inr (f_quot a b))"

text \<open>
  The builtins: \<^verbatim>\<open>sum\<close> adds from the left starting at 0; \<^verbatim>\<open>max(a, b)\<close> keeps
  \<^verbatim>\<open>a\<close> unless \<^verbatim>\<open>b > a\<close>; \<^verbatim>\<open>min(a, b)\<close> keeps \<^verbatim>\<open>a\<close> unless \<^verbatim>\<open>b < a\<close>.
\<close>

definition py_sum :: "pyfloat list \<Rightarrow> pyfloat" where
  "py_sum xs = foldl f_add (Fin 0) xs"

definition py_max :: "pyfloat \<Rightarrow> pyfloat \<Rightarrow> pyfloat" where
  "py_max a b = (if f_less a b then b else a)"

definition py_min :: "pyfloat \<Rightarrow> pyfloat \<Rightarrow> pyfloat" where
  "py_min a b = (if f_less b a then b else a)"

subsection \<open>Strings: \<^verbatim>\<open>str.lower\<close>, \<^verbatim>\<open>float(str)\<close>, \<^verbatim>\<open>strptime\<close>\<close>

text \<open>Strings are ASCII; \<^verbatim>\<open>str.lower\<close> maps A..Z to a..z.\<close>

definition lower_char :: "char \<Rightarrow> char" where
  "lower_char c =
     (let n = (of_char c :: nat) in if 65 \<le> n \<and> n \<le> 90 then char_of (n + 32) else c)"

definition lower :: "string \<Rightarrow> string" where
  "lower s = map lower_char s"

definition is_digit :: "char \<Rightarrow> bool" where
  "is_digit c = (let n = (of_char c :: nat) in 48 \<le> n \<and> n \<le> 57)"

definition digit_val :: "char \<Rightarrow> nat" where
  "digit_val c = of_char c - 48"

definition is_space :: "char \<Rightarrow> bool" where
  "is_space c = (let n = (of_char c :: nat) in (9 \<le> n \<and> n \<le> 13) \<or> (28 \<le> n \<and> n \<le> 32))"

definition strip :: "string \<Rightarrow> string" where
  "strip s = rev (dropWhile is_space (rev (dropWhile is_space s)))"

definition digits_nat :: "string \<Rightarrow> nat" where
  "digits_nat ds = foldl (\<lambda>n c. 10 * n + digit_val c) 0 ds"

text \<open>
  The float literal grammar of the Python reference:
  \<^verbatim>\<open>digitpart ::= digit (["_"] digit)*\<close>,
  \<^verbatim>\<open>number ::= [digitpart] "." digitpart | digitpart ["."]\<close>,
  \<^verbatim>\<open>exponent ::= ("e" | "E") [sign] digitpart\<close>,
  \<^verbatim>\<open>floatvalue ::= [sign] (number [exponent] | "inf" | "infinity" | "nan")\<close>,
  case-insensitive, surrounding whitespace stripped.
  \<open>digitpart s\<close> returns the digits of the longest digitpart \<open>s\<close> starts with (none if it
  starts with none) and the rest of \<open>s\<close>.
\<close>

fun digitpart :: "string \<Rightarrow> string \<times> string" where
  "digitpart [] = ([], [])"
| "digitpart [c] = (if is_digit c then ([c], []) else ([], [c]))"
| "digitpart (c # u # cs) =
     (if \<not> is_digit c then ([], c # u # cs)
      else if u = CHR ''_'' then
        (case cs of
           [] \<Rightarrow> ([c], u # cs)
         | d # cs' \<Rightarrow>
             if is_digit d then (let (ds, r) = digitpart cs in (c # ds, r))
             else ([c], u # cs))
      else (let (ds, r) = digitpart (u # cs) in (c # ds, r)))"

definition take_sign :: "string \<Rightarrow> bool \<times> string" where
  "take_sign s =
     (case s of
        [] \<Rightarrow> (False, [])
      | c # cs \<Rightarrow>
          if c = CHR ''-'' then (True, cs) else if c = CHR ''+'' then (False, cs) else (False, s))"

definition pow10 :: "int \<Rightarrow> rat" where
  "pow10 e = (if 0 \<le> e then 10 ^ nat e else 1 / 10 ^ nat (- e))"

definition parse_exponent :: "string \<Rightarrow> (int \<times> string) option" where
  "parse_exponent s =
     (case s of
        [] \<Rightarrow> Some (0, [])
      | c # cs \<Rightarrow>
          if c = CHR ''e'' \<or> c = CHR ''E'' then
            (let (neg, r) = take_sign cs; (ds, r') = digitpart r in
             if ds = [] then None
             else Some ((if neg then - int (digits_nat ds) else int (digits_nat ds)), r'))
          else Some (0, s))"

definition parse_number :: "string \<Rightarrow> rat option" where
  "parse_number s =
     (let (ip, r1) = digitpart s;
          dot = (r1 \<noteq> [] \<and> hd r1 = CHR ''.'');
          (fp, r2) = (if dot then digitpart (tl r1) else ([], r1))
      in if ip = [] \<and> fp = [] then None
         else (case parse_exponent r2 of
                 None \<Rightarrow> None
               | Some (e, r3) \<Rightarrow>
                   if r3 \<noteq> [] then None
                   else Some (of_nat (digits_nat (ip @ fp)) * pow10 (e - int (length fp)))))"

definition float_of_string :: "string \<Rightarrow> error + pyfloat" where
  "float_of_string s =
     (let (neg, body) = take_sign (strip s); w = lower body in
      if w = ''inf'' \<or> w = ''infinity'' then Inr (if neg then NegInf else PosInf)
      else if w = ''nan'' then Inr NaN
      else (case parse_number body of
              None \<Rightarrow> Inl (ValueError NotAFloat)
            | Some q \<Rightarrow> Inr (Fin (if neg then - q else q))))"

text \<open>
  A value passed as an amount or a limit: text (every cell read from a CSV file is text)
  or a float (what the dashboard's number input passes, and what
  \<^verbatim>\<open>delete_transaction\<close> and \<^verbatim>\<open>set_budget\<close> hand to \<^verbatim>\<open>csv.writer\<close>). A float
  written to a file becomes the text \<^verbatim>\<open>repr(f)\<close>; that text is kept as \<open>PyFloat f\<close>,
  since \<^verbatim>\<open>float(repr(f)) == f\<close> for every float.
\<close>

datatype pyval = PyStr string | PyFloat pyfloat

fun py_float :: "pyval \<Rightarrow> error + pyfloat" where
  "py_float (PyStr s) = float_of_string s"
| "py_float (PyFloat f) = Inr f"

text \<open>
  \<^verbatim>\<open>datetime.strptime(date, "%Y-%m-%d")\<close>. The format compiles to the regular expression
  \<^verbatim>\<open>(\d\d\d\d)-(1[0-2]|0[1-9]|[1-9])-(3[01]|[12]\d|0[1-9]|[1-9]| [1-9])\<close>, matched at
  the start of the text; text left over after the match is an error, and so is a
  year, month and day that \<^verbatim>\<open>datetime.date\<close> refuses (year 0, 30 February).
  \<open>None\<close> stands for the ValueError.
\<close>

definition match_month :: "string \<Rightarrow> (nat \<times> string) option" where
  "match_month s =
     (case s of
        a # b # c # r \<Rightarrow>
          if a = CHR ''1'' \<and> b \<in> {CHR ''0'', CHR ''1'', CHR ''2''} \<and> c = CHR ''-''
            then Some (10 + digit_val b, r)
          else if a = CHR ''0'' \<and> is_digit b \<and> b \<noteq> CHR ''0'' \<and> c = CHR ''-''
            then Some (digit_val b, r)
          else if is_digit a \<and> a \<noteq> CHR ''0'' \<and> b = CHR ''-''
            then Some (digit_val a, c # r)
          else None
      | [a, b] \<Rightarrow>
          if is_digit a \<and> a \<noteq> CHR ''0'' \<and> b = CHR ''-'' then Some (digit_val a, []) else None
      | _ \<Rightarrow> None)"

definition match_day :: "string \<Rightarrow> (nat \<times> string) option" where
  "match_day s =
     (case s of
        [] \<Rightarrow> None
      | [a] \<Rightarrow> if is_digit a \<and> a \<noteq> CHR ''0'' then Some (digit_val a, []) else None
      | a # b # r \<Rightarrow>
          if a = CHR ''3'' \<and> b \<in> {CHR ''0'', CHR ''1''} then Some (30 + digit_val b, r)
          else if a \<in> {CHR ''1'', CHR ''2''} \<and> is_digit b
            then Some (10 * digit_val a + digit_val b, r)
          else if a = CHR ''0'' \<and> is_digit b \<and> b \<noteq> CHR ''0'' then Some (digit_val b, r)
          else if is_digit a \<and> a \<noteq> CHR ''0'' then Some (digit_val a, b # r)
          else if a = CHR '' '' \<and> is_digit b \<and> b \<noteq> CHR ''0'' then Some (digit_val b, r)
          else None)"

definition isleap :: "nat \<Rightarrow> bool" where
  "isleap y = (y mod 4 = 0 \<and> (y mod 100 \<noteq> 0 \<or> y mod 400 = 0))"

definition days_in_month :: "nat \<Rightarrow> nat \<Rightarrow> nat" where
  "days_in_month y m =
     (if m = 2 then (if isleap y then 29 else 28)
      else if m \<in> {4, 6, 9, 11} then 30 else 31)"

definition strptime :: "string \<Rightarrow> (nat \<times> nat \<times> nat) option" where
  "strptime s =
     (case s of
        y1 # y2 # y3 # y4 # dash # r \<Rightarrow>
          if is_digit y1 \<and> is_digit y2 \<and> is_digit y3 \<and> is_digit y4 \<and> dash = CHR ''-'' then
            (case match_month r of
               None \<Rightarrow> None
             | Some (m, r') \<Rightarrow>
                 (case match_day r' of
                    None \<Rightarrow> None
                  | Some (d, r'') \<Rightarrow>
                      (let y = digits_nat [y1, y2, y3, y4] in
                       if r'' = [] \<and> 1 \<le> y \<and> d \<le> days_in_month y m then Some (y, m, d)
                       else None)))
          else None
      | _ \<Rightarrow> None)"

section \<open>Entities\<close>

subsection \<open>Transaction\<close>

record transaction =
  trans_id :: string
  date :: string
  amount :: pyfloat
  category :: string
  trans_type :: string
  description :: string

text \<open>
  \<^verbatim>\<open>Transaction._validate_inputs\<close>, in the order of the source: the date, then the
  amount, then the type. Both ValueErrors of the amount block (the one \<^verbatim>\<open>float\<close>
  raises and "Amount must be positive") are caught by its \<^verbatim>\<open>except ValueError\<close> and
  replaced by "Amount must be a positive number".
\<close>

definition validate_inputs :: "pyval \<Rightarrow> string \<Rightarrow> string \<Rightarrow> error + unit" where
  "validate_inputs amt dt ty =
     (if strptime dt = None then Inl (ValueError DateFormat)
      else (case py_float amt of
              Inl e \<Rightarrow> Inl (ValueError AmountPositive)
            | Inr f \<Rightarrow>
                if f_le f (Fin 0) then Inl (ValueError AmountPositive)
                else if lower ty \<notin> {''income'', ''expense''} then Inl (ValueError TypeIncomeExpense)
                else Inr ()))"

text \<open>\<^verbatim>\<open>Transaction.__init__\<close>.\<close>

definition Transaction ::
  "string \<Rightarrow> string \<Rightarrow> pyval \<Rightarrow> string \<Rightarrow> string \<Rightarrow> string \<Rightarrow> error + transaction" where
  "Transaction tid dt amt cat ty descr =
     (case validate_inputs amt dt ty of
        Inl e \<Rightarrow> Inl e
      | Inr _ \<Rightarrow>
          (case py_float amt of
             Inl e \<Rightarrow> Inl e
           | Inr f \<Rightarrow>
               Inr \<lparr>trans_id = tid, date = dt, amount = f, category = cat,
                    trans_type = lower ty, description = descr\<rparr>))"

subsection \<open>Budget\<close>

record budget =
  budget_category :: string
  limit :: pyfloat

record limit_status =
  exceeded :: bool
  total :: pyfloat
  remaining :: pyfloat
  percentage :: pyfloat

text \<open>\<^verbatim>\<open>Budget._validate_inputs\<close> and \<^verbatim>\<open>Budget.__init__\<close>.\<close>

definition budget_validate_inputs :: "pyval \<Rightarrow> error + unit" where
  "budget_validate_inputs lmt =
     (case py_float lmt of
        Inl e \<Rightarrow> Inl (ValueError LimitPositive)
      | Inr f \<Rightarrow> if f_le f (Fin 0) then Inl (ValueError LimitPositive) else Inr ())"

definition Budget :: "string \<Rightarrow> pyval \<Rightarrow> error + budget" where
  "Budget cat lmt =
     (case budget_validate_inputs lmt of
        Inl e \<Rightarrow> Inl e
      | Inr _ \<Rightarrow>
          (case py_float lmt of
             Inl e \<Rightarrow> Inl e
           | Inr f \<Rightarrow> Inr \<lparr>budget_category = cat, limit = f\<rparr>))"

text \<open>
  \<^verbatim>\<open>Budget.check_limit\<close>. The division is the only step that can raise; the source
  guards it with \<^verbatim>\<open>if self._limit > 0\<close>.
\<close>

definition check_limit :: "budget \<Rightarrow> transaction list \<Rightarrow> error + limit_status" where
  "check_limit b expenses =
     (let tot = py_sum (map amount (filter (\<lambda>e. category e = budget_category b) expenses));
          pct = (if f_less (Fin 0) (limit b)
                 then (case f_div tot (limit b) of
                         Inl e \<Rightarrow> Inl e
                       | Inr q \<Rightarrow> Inr (f_mul q (Fin 100)))
                 else Inr (Fin 0))
      in case pct of
           Inl e \<Rightarrow> Inl e
         | Inr p \<Rightarrow>
             Inr \<lparr>exceeded = f_less (limit b) tot,
                  total = tot,
                  remaining = py_max (Fin 0) (f_sub (limit b) tot),
                  percentage = py_min (Fin 100) p\<rparr>)"

section \<open>Persistence\<close>

text \<open>
  The two CSV files, at the level of their records: a row of \<^verbatim>\<open>transactions.csv\<close> holds
  the six cells \<^verbatim>\<open>id, date, amount, category, type, description\<close>, a row of
  \<^verbatim>\<open>budgets.csv\<close> the cells \<^verbatim>\<open>category, limit\<close>. Quoting, line ends and rows with
  missing cells are below this model.

  \<^verbatim>\<open>init_files\<close> (run at import) and every rewrite put the header row first. Only
  \<^verbatim>\<open>add_transaction\<close> opens its file in append mode, which creates a missing file
  without the header: \<^verbatim>\<open>csv.DictReader\<close> then takes the first data row for the header,
  yields no record for it, and the lookup \<^verbatim>\<open>row['id']\<close> raises KeyError on every later
  row (the cells of a validated row cannot spell the five column names).
  \<open>read_only\<close> stands for a data directory whose files cannot be opened for writing:
  \<^verbatim>\<open>open(..., 'w')\<close> and \<^verbatim>\<open>open(..., 'a')\<close> raise PermissionError, which
  \<^verbatim>\<open>file_handler\<close> logs and re-raises.
\<close>

record raw_row =
  row_id :: string
  row_date :: string
  row_amount :: pyval
  row_category :: string
  row_type :: string
  row_description :: string

record budget_row =
  brow_category :: string
  brow_limit :: pyval

datatype 'r csv_file = Missing | Headerless "'r list" | WithHeader "'r list"

record disk =
  data_file :: "raw_row csv_file"
  budget_file :: "budget_row list option"
  read_only :: bool

subsection \<open>TransactionManager\<close>

text \<open>
  The loop of \<^verbatim>\<open>load_transactions\<close>: a row whose construction raises ValueError is
  skipped and a warning with the row and the error is logged. The result is the list of
  transactions and the warnings, both in file order.
\<close>

definition row_transaction :: "raw_row \<Rightarrow> error + transaction" where
  "row_transaction row =
     Transaction (row_id row) (row_date row) (row_amount row) (row_category row)
       (row_type row) (row_description row)"

fun load_rows :: "raw_row list \<Rightarrow> transaction list \<times> (raw_row \<times> error) list" where
  "load_rows [] = ([], [])"
| "load_rows (row # rows) =
     (let (transactions, warnings) = load_rows rows in
      case row_transaction row of
        Inr txn \<Rightarrow> (txn # transactions, warnings)
      | Inl e \<Rightarrow> (transactions, (row, e) # warnings))"

definition load_transactions ::
  "disk \<Rightarrow> error + transaction list \<times> (raw_row \<times> error) list" where
  "load_transactions d =
     (case data_file d of
        Missing \<Rightarrow> Inr ([], [])
      | WithHeader rows \<Rightarrow> Inr (load_rows rows)
      | Headerless rows \<Rightarrow> if length rows \<le> 1 then Inr ([], []) else Inl (KeyError ''id''))"

definition append_row :: "'r \<Rightarrow> 'r csv_file \<Rightarrow> 'r csv_file" where
  "append_row row f =
     (case f of
        Missing \<Rightarrow> Headerless [row]
      | Headerless rows \<Rightarrow> Headerless (rows @ [row])
      | WithHeader rows \<Rightarrow> WithHeader (rows @ [row]))"

text \<open>
  \<^verbatim>\<open>add_transaction\<close>; \<open>uid\<close> is the text of the fresh \<^verbatim>\<open>uuid.uuid4()\<close>. The row
  written holds the arguments as they were passed, not the fields of the transaction.
\<close>

definition add_transaction ::
  "string \<Rightarrow> string \<Rightarrow> pyval \<Rightarrow> string \<Rightarrow> string \<Rightarrow> string \<Rightarrow> disk \<Rightarrow> (error + transaction) \<times> disk" where
  "add_transaction uid dt amt cat ty descr d =
     (case Transaction uid dt amt cat ty descr of
        Inl e \<Rightarrow> (Inl e, d)
      | Inr txn \<Rightarrow>
          if read_only d then (Inl PermissionError, d)
          else (Inr txn,
                d\<lparr>data_file :=
                    append_row \<lparr>row_id = uid, row_date = dt, row_amount = amt, row_category = cat,
                                row_type = ty, row_description = descr\<rparr> (data_file d)\<rparr>))"

text \<open>The row \<^verbatim>\<open>delete_transaction\<close> writes for a transaction it keeps.\<close>

definition to_row :: "transaction \<Rightarrow> raw_row" where
  "to_row t =
     \<lparr>row_id = trans_id t, row_date = date t, row_amount = PyFloat (amount t),
      row_category = category t, row_type = trans_type t, row_description = description t\<rparr>"

definition delete_transaction :: "string \<Rightarrow> disk \<Rightarrow> (error + bool) \<times> disk" where
  "delete_transaction tid d =
     (case load_transactions d of
        Inl e \<Rightarrow> (Inl e, d)
      | Inr (transactions, warnings) \<Rightarrow>
          (let updated_transactions = filter (\<lambda>t. trans_id t \<noteq> tid) transactions in
           if read_only d then (Inl PermissionError, d)
           else (Inr True, d\<lparr>data_file := WithHeader (map to_row updated_transactions)\<rparr>)))"

subsection \<open>BudgetManager\<close>

fun load_budget_rows :: "budget_row list \<Rightarrow> budget list \<times> (budget_row \<times> error) list" where
  "load_budget_rows [] = ([], [])"
| "load_budget_rows (row # rows) =
     (let (budgets, warnings) = load_budget_rows rows in
      case Budget (brow_category row) (brow_limit row) of
        Inr b \<Rightarrow> (b # budgets, warnings)
      | Inl e \<Rightarrow> (budgets, (row, e) # warnings))"

definition load_budgets :: "disk \<Rightarrow> budget list \<times> (budget_row \<times> error) list" where
  "load_budgets d =
     (case budget_file d of
        None \<Rightarrow> ([], [])
      | Some rows \<Rightarrow> load_budget_rows rows)"

text \<open>
  A Python dict as an association list in insertion order: assigning to a key that is
  present replaces its value in place, a new key goes to the end.
\<close>

fun dict_set :: "('k \<times> 'v) list \<Rightarrow> 'k \<Rightarrow> 'v \<Rightarrow> ('k \<times> 'v) list" where
  "dict_set [] k v = [(k, v)]"
| "dict_set ((k', v') # kvs) k v =
     (if k' = k then (k, v) # kvs else (k', v') # dict_set kvs k v)"

text \<open>The dict comprehension \<^verbatim>\<open>{b._category: b for b in self.load_budgets()}\<close>.\<close>

definition budget_dict :: "budget list \<Rightarrow> (string \<times> budget) list" where
  "budget_dict bs = foldl (\<lambda>m x. dict_set m (budget_category x) x) [] bs"

definition budget_to_row :: "budget \<Rightarrow> budget_row" where
  "budget_to_row b = \<lparr>brow_category = budget_category b, brow_limit = PyFloat (limit b)\<rparr>"

definition set_budget :: "string \<Rightarrow> pyval \<Rightarrow> disk \<Rightarrow> (error + budget) \<times> disk" where
  "set_budget cat lmt d =
     (case Budget cat lmt of
        Inl e \<Rightarrow> (Inl e, d)
      | Inr b \<Rightarrow>
          (let budgets = budget_dict (fst (load_budgets d));
               budgets' = dict_set budgets cat b
           in if read_only d then (Inl PermissionError, d)
              else (Inr b, d\<lparr>budget_file := Some (map (budget_to_row \<circ> snd) budgets')\<rparr>)))"

definition delete_budget :: "string \<Rightarrow> disk \<Rightarrow> (error + bool) \<times> disk" where
  "delete_budget cat d =
     (let budgets = filter (\<lambda>b. budget_category b \<noteq> cat) (fst (load_budgets d)) in
      if read_only d then (Inl PermissionError, d)
      else (Inr True, d\<lparr>budget_file := Some (map budget_to_row budgets)\<rparr>))"

text \<open>A sequence of \<^verbatim>\<open>set_budget\<close> calls, each on the store the one before left.\<close>

fun set_budgets :: "(string \<times> pyval) list \<Rightarrow> disk \<Rightarrow> disk" where
  "set_budgets [] d = d"
| "set_budgets ((cat, lmt) # calls) d = set_budgets calls (snd (set_budget cat lmt d))"

section \<open>FinanceAnalyzer\<close>











section \<open>Notions used to state the properties\<close>



text \<open>The expenses a budget counts: those of its category, compared with \<^verbatim>\<open>==\<close>.\<close>

definition matching :: "budget \<Rightarrow> transaction list \<Rightarrow> transaction list" where
  "matching b es = filter (\<lambda>e. category e = budget_category b) es"

text \<open>
  The values a sum of amounts that passed validation can take: a number \<open>\<ge> 0\<close>, plus
  infinity, or NaN.
\<close>

fun nonneg_or_nan :: "pyfloat \<Rightarrow> bool" where
  "nonneg_or_nan (Fin a) = (0 \<le> a)"
| "nonneg_or_nan PosInf = True"
| "nonneg_or_nan NaN = True"
| "nonneg_or_nan NegInf = False"

text \<open>What the constructor guarantees of a transaction it built.\<close>

definition valid_txn :: "transaction \<Rightarrow> bool" where
  "valid_txn t =
     (strptime (date t) \<noteq> None \<and> \<not> f_le (amount t) (Fin 0)
      \<and> trans_type t \<in> {''income'', ''expense''})"



text \<open>
  A dict of budgets whose keys are distinct, with every value under its own category and
  taken from a given set.
\<close>

definition keyed :: "budget set \<Rightarrow> (string \<times> budget) list \<Rightarrow> bool" where
  "keyed B kvs =
     (distinct (map fst kvs) \<and> (\<forall>p\<in>set kvs. budget_category (snd p) = fst p \<and> snd p \<in> B))"

text \<open>What \<^verbatim>\<open>Budget.__init__\<close> guarantees of a budget it built.\<close>

definition valid_budget :: "budget \<Rightarrow> bool" where
  "valid_budget b = (\<not> f_le (limit b) (Fin 0))"

text \<open>At most one budget per category, among the budgets the store loads to.\<close>

definition one_per_category :: "disk \<Rightarrow> bool" where
  "one_per_category d = distinct (map budget_category (fst (load_budgets d)))"




section \<open>Budget.check_limit\<close>



lemma check_limit_float:
  assumes "f_less (Fin 0) (limit b)"
  shows "check_limit b es =
      (let tot = py_sum (map amount (matching b es)) in
       Inr \<lparr>exceeded = f_less (limit b) tot, total = tot,
            remaining = py_max (Fin 0) (f_sub (limit b) tot),
            percentage = py_min (Fin 100) (f_mul (f_quot tot (limit b)) (Fin 100))\<rparr>)"
proof -
  from assms have "limit b \<noteq> Fin 0" by (cases "limit b") auto
  with assms show ?thesis
    by (simp add: check_limit_def f_div_def Let_def matching_def)
qed




subsection \<open>Bounds of the status record\<close>

text \<open>
  What \<^verbatim>\<open>Budget.__init__\<close> lets through: a limit that is not \<open>\<le> 0\<close>. Every comparison
  with NaN is false, so that is a limit \<open>> 0\<close> or NaN.
\<close>

lemma Budget_Inr_iff:
  "Budget cat lmt = Inr b \<longleftrightarrow>
     (\<exists>f. py_float lmt = Inr f \<and> \<not> f_le f (Fin 0) \<and> b = \<lparr>budget_category = cat, limit = f\<rparr>)"
  by (auto simp: Budget_def budget_validate_inputs_def split: sum.splits)

lemma Budget_limit:
  "Budget cat lmt = Inr b \<Longrightarrow> f_less (Fin 0) (limit b) \<or> limit b = NaN"
  by (cases "limit b") (auto simp: Budget_Inr_iff)

lemma f_add_nonneg:
  "nonneg_or_nan a \<Longrightarrow> \<not> f_le x (Fin 0) \<Longrightarrow> nonneg_or_nan (f_add a x)"
  by (cases a; cases x) auto

lemma foldl_f_add_nonneg:
  "nonneg_or_nan a \<Longrightarrow> \<forall>x\<in>set xs. \<not> f_le x (Fin 0) \<Longrightarrow> nonneg_or_nan (foldl f_add a xs)"
  by (induction xs arbitrary: a) (auto simp: f_add_nonneg)

lemma py_sum_nonneg:
  "\<forall>x\<in>set xs. \<not> f_le x (Fin 0) \<Longrightarrow> nonneg_or_nan (py_sum xs)"
  by (simp add: py_sum_def foldl_f_add_nonneg)

lemma remaining_bounds:
  assumes "f_less (Fin 0) L" and "nonneg_or_nan t"
  shows "f_le (Fin 0) (py_max (Fin 0) (f_sub L t)) \<and> f_le (py_max (Fin 0) (f_sub L t)) L"
  using assms by (cases L; cases t) (auto simp: py_max_def f_sub_def)

lemma percentage_bounds:
  assumes "f_less (Fin 0) L" and "nonneg_or_nan t"
  shows "f_le (Fin 0) (py_min (Fin 100) (f_mul (f_quot t L) (Fin 100)))
       \<and> f_le (py_min (Fin 100) (f_mul (f_quot t L) (Fin 100))) (Fin 100)"
  using assms by (cases L; cases t) (auto simp: py_min_def)

text \<open>
  With a limit \<open>> 0\<close> and amounts that passed validation, the bounds
  \<open>0 \<le> remaining \<le> limit\<close> and \<open>0 \<le> percentage \<le> 100\<close> hold, whatever the total.
\<close>

lemma check_limit_bounds:
  assumes "f_less (Fin 0) (limit b)" and "\<forall>e\<in>set es. \<not> f_le (amount e) (Fin 0)"
  shows "\<exists>r. check_limit b es = Inr r
            \<and> f_le (Fin 0) (remaining r) \<and> f_le (remaining r) (limit b)
            \<and> f_le (Fin 0) (percentage r) \<and> f_le (percentage r) (Fin 100)"
proof -
  have "nonneg_or_nan (py_sum (map amount (matching b es)))"
    using assms(2) by (intro py_sum_nonneg) (auto simp: matching_def)
  then show ?thesis
    using remaining_bounds [OF assms(1)] percentage_bounds [OF assms(1)]
    by (simp add: check_limit_float [OF assms(1)] Let_def)
qed

text \<open>
  C10. The bounds are claimed for every budget that was constructed. A budget whose limit
  is the text "nan" is constructed (\<^verbatim>\<open>float("nan") <= 0\<close> is false), although the
  error message of the check reads "Budget limit must be a positive number". For it
  \<^verbatim>\<open>check_limit\<close> on no expenses returns \<open>remaining = 0\<close>, and \<open>remaining \<le> limit\<close> is
  false.
\<close>

theorem nan_limit_breaks_bounds:
  "Budget ''Food'' (PyStr ''nan'') = Inr \<lparr>budget_category = ''Food'', limit = NaN\<rparr>
   \<and> check_limit \<lparr>budget_category = ''Food'', limit = NaN\<rparr> []
       = Inr \<lparr>exceeded = False, total = Fin 0, remaining = Fin 0, percentage = Fin 0\<rparr>
   \<and> \<not> f_le (Fin 0) NaN"
proof -
  have "float_of_string ''nan'' = Inr NaN"
    by (simp add: float_of_string_def take_sign_def strip_def is_space_def lower_def
        lower_char_def)
  then have "Budget ''Food'' (PyStr ''nan'') = Inr \<lparr>budget_category = ''Food'', limit = NaN\<rparr>"
    by (simp add: Budget_def budget_validate_inputs_def)
  moreover have "check_limit \<lparr>budget_category = ''Food'', limit = NaN\<rparr> []
       = Inr \<lparr>exceeded = False, total = Fin 0, remaining = Fin 0, percentage = Fin 0\<rparr>"
    by (simp add: check_limit_def py_sum_def py_max_def py_min_def f_sub_def)
  ultimately show ?thesis by simp
qed

section \<open>Transaction validation and add_transaction\<close>

text \<open>What \<^verbatim>\<open>Transaction.__init__\<close> lets through, and the object it then builds.\<close>

lemma Transaction_Inr_iff:
  "Transaction tid dt amt cat ty descr = Inr t \<longleftrightarrow>
     strptime dt \<noteq> None \<and> lower ty \<in> {''income'', ''expense''} \<and>
     (\<exists>f. py_float amt = Inr f \<and> \<not> f_le f (Fin 0) \<and>
          t = \<lparr>trans_id = tid, date = dt, amount = f, category = cat,
               trans_type = lower ty, description = descr\<rparr>)"
  by (auto simp: Transaction_def validate_inputs_def split: sum.splits)

text \<open>The constructor raises nothing but ValueError, the one exception the loader catches.\<close>

lemma Transaction_Inl:
  "Transaction tid dt amt cat ty descr = Inl e \<Longrightarrow> \<exists>m. e = ValueError m"
  by (auto simp: Transaction_def validate_inputs_def split: sum.splits if_splits)

text \<open>
  A date \<^verbatim>\<open>strptime\<close> refuses, an amount that \<^verbatim>\<open>float\<close> refuses or that is \<open>\<le> 0\<close>, or
  a type that is neither "income" nor "expense" in lower case: the constructor raises
  ValueError, and \<^verbatim>\<open>add_transaction\<close> raises it with the store as it was.
\<close>

lemma invalid_input_rejected:
  assumes "strptime dt = None \<or> (\<forall>f. py_float amt = Inr f \<longrightarrow> f_le f (Fin 0))
           \<or> lower ty \<notin> {''income'', ''expense''}"
  shows "\<exists>m. Transaction uid dt amt cat ty descr = Inl (ValueError m)
            \<and> add_transaction uid dt amt cat ty descr d = (Inl (ValueError m), d)"
proof (cases "Transaction uid dt amt cat ty descr")
  case (Inl e)
  then obtain m where "e = ValueError m" using Transaction_Inl by blast
  with Inl show ?thesis by (simp add: add_transaction_def)
next
  case (Inr t)
  with assms show ?thesis by (auto simp: Transaction_Inr_iff)
qed

text \<open>\<^verbatim>\<open>add_transaction\<close> changes the store only when it returns the transaction.\<close>

lemma add_transaction_error_frame:
  "add_transaction uid dt amt cat ty descr d = (Inl e, d') \<Longrightarrow> d' = d"
  by (auto simp: add_transaction_def split: sum.splits if_splits)

text \<open>
  C3. Every input whose amount is not a positive number is claimed to be refused. The
  amount "nan" is not a positive number, and the check
  \<^verbatim>\<open>float(amount) <= 0\<close> is false for it: the transaction is constructed with the
  amount NaN, and \<^verbatim>\<open>add_transaction\<close> writes its row to the store. The message of the
  check reads "Amount must be a positive number".
\<close>

theorem nan_amount_accepted:
  "Transaction ''u1'' ''2024-01-15'' (PyStr ''nan'') ''Food'' ''expense'' ''''
     = Inr \<lparr>trans_id = ''u1'', date = ''2024-01-15'', amount = NaN, category = ''Food'',
            trans_type = ''expense'', description = ''''\<rparr>
   \<and> add_transaction ''u1'' ''2024-01-15'' (PyStr ''nan'') ''Food'' ''expense'' ''''
       \<lparr>data_file = WithHeader [], budget_file = Some [], read_only = False\<rparr>
     = (Inr \<lparr>trans_id = ''u1'', date = ''2024-01-15'', amount = NaN, category = ''Food'',
             trans_type = ''expense'', description = ''''\<rparr>,
        \<lparr>data_file = WithHeader
           [\<lparr>row_id = ''u1'', row_date = ''2024-01-15'', row_amount = PyStr ''nan'',
             row_category = ''Food'', row_type = ''expense'', row_description = ''''\<rparr>],
         budget_file = Some [], read_only = False\<rparr>)
   \<and> \<not> f_less (Fin 0) NaN"
proof -
  have a: "float_of_string ''nan'' = Inr NaN"
    by (simp add: float_of_string_def take_sign_def strip_def is_space_def lower_def
        lower_char_def)
  have d: "strptime ''2024-01-15'' = Some (2024, 1, 15)"
    by (simp add: strptime_def match_month_def match_day_def is_digit_def digit_val_def
        digits_nat_def days_in_month_def isleap_def)
  have l: "lower ''expense'' = ''expense''"
    by (simp add: lower_def lower_char_def)
  have t: "Transaction ''u1'' ''2024-01-15'' (PyStr ''nan'') ''Food'' ''expense'' ''''
     = Inr \<lparr>trans_id = ''u1'', date = ''2024-01-15'', amount = NaN, category = ''Food'',
            trans_type = ''expense'', description = ''''\<rparr>"
    by (simp add: Transaction_def validate_inputs_def a d l)
  show ?thesis
    by (simp add: t add_transaction_def append_row_def)
qed

section \<open>Round trip through the store\<close>

lemma load_rows_append:
  "load_rows (xs @ ys) =
     (fst (load_rows xs) @ fst (load_rows ys), snd (load_rows xs) @ snd (load_rows ys))"
  by (induction xs) (auto simp: Let_def split: prod.splits sum.splits)

text \<open>
  C4. A date \<^verbatim>\<open>strptime\<close> accepts, an amount \<open>> 0\<close>, any category and description, and
  a type that is "income" or "expense" in lower case: the constructor succeeds, and on a
  store whose data file exists with its header (as \<^verbatim>\<open>init_files\<close> leaves it) and can be
  written, \<^verbatim>\<open>add_transaction\<close> returns the transaction and \<^verbatim>\<open>load_transactions\<close>
  afterwards returns what it returned before, followed by that same transaction, field
  by field; no warning is added.
\<close>

theorem add_then_load_roundtrip:
  assumes "strptime dt \<noteq> None" and "py_float amt = Inr f" and "f_less (Fin 0) f"
    and "lower ty \<in> {''income'', ''expense''}"
    and "data_file d = WithHeader rows" and "\<not> read_only d"
  shows "\<exists>t d'. Transaction uid dt amt cat ty descr = Inr t
            \<and> t = \<lparr>trans_id = uid, date = dt, amount = f, category = cat,
                    trans_type = lower ty, description = descr\<rparr>
            \<and> add_transaction uid dt amt cat ty descr d = (Inr t, d')
            \<and> load_transactions d = Inr (load_rows rows)
            \<and> load_transactions d' = Inr (fst (load_rows rows) @ [t], snd (load_rows rows))"
proof -
  let ?t = "\<lparr>trans_id = uid, date = dt, amount = f, category = cat,
             trans_type = lower ty, description = descr\<rparr>"
  let ?row = "\<lparr>row_id = uid, row_date = dt, row_amount = amt, row_category = cat,
               row_type = ty, row_description = descr\<rparr>"
  from assms(3) have pos: "\<not> f_le f (Fin 0)" by (cases f) auto
  have t: "Transaction uid dt amt cat ty descr = Inr ?t"
    using assms(1,2,4) pos by (simp add: Transaction_Inr_iff)
  have one: "load_rows [?row] = ([?t], [])"
    using t by (simp add: row_transaction_def)
  have "load_rows (rows @ [?row]) = (fst (load_rows rows) @ [?t], snd (load_rows rows))"
    by (simp add: load_rows_append [of rows "[?row]"] one del: load_rows.simps)
  then show ?thesis
    using t assms(5,6)
    by (simp add: add_transaction_def append_row_def load_transactions_def)
qed

theorem add_then_load_roundtrip_witness:
  "\<exists>t d'. Transaction ''u1'' ''2024-01-15'' (PyStr ''40.5'') ''Food'' ''Expense'' ''lunch'' = Inr t
      \<and> t = \<lparr>trans_id = ''u1'', date = ''2024-01-15'', amount = Fin (81 / 2), category = ''Food'',
              trans_type = ''expense'', description = ''lunch''\<rparr>
      \<and> add_transaction ''u1'' ''2024-01-15'' (PyStr ''40.5'') ''Food'' ''Expense'' ''lunch''
           \<lparr>data_file = WithHeader [], budget_file = Some [], read_only = False\<rparr> = (Inr t, d')
      \<and> load_transactions d' = Inr ([t], [])"
proof -
  have a: "py_float (PyStr ''40.5'') = Inr (Fin (81 / 2))"
    by (simp add: float_of_string_def take_sign_def strip_def is_space_def lower_def
        lower_char_def parse_number_def is_digit_def parse_exponent_def digits_nat_def
        digit_val_def pow10_def)
  have d: "strptime ''2024-01-15'' \<noteq> None"
    by (simp add: strptime_def match_month_def match_day_def is_digit_def digit_val_def
        digits_nat_def days_in_month_def isleap_def)
  have l: "lower ''Expense'' = ''expense''"
    by code_simp
  have l': "lower ''Expense'' \<in> {''income'', ''expense''}"
    by (simp add: l)
  have p: "f_less (Fin 0) (Fin (81 / 2))" by simp
  let ?d = "\<lparr>data_file = WithHeader [], budget_file = Some [], read_only = False\<rparr>"
  have f: "data_file ?d = WithHeader []" and w: "\<not> read_only ?d" by simp_all
  from add_then_load_roundtrip [OF d a p l' f w, of "''u1''" "''Food''" "''lunch''"]
  show ?thesis by (auto simp: l)
qed

section \<open>load_transactions and delete_transaction\<close>

lemma row_transaction_valid: "row_transaction r = Inr t \<Longrightarrow> valid_txn t"
  by (auto simp: row_transaction_def Transaction_Inr_iff valid_txn_def)



lemma load_rows_valid: "t \<in> set (fst (load_rows rows)) \<Longrightarrow> valid_txn t"
proof (induction rows arbitrary: t)
  case Nil
  then show ?case by simp
next
  case (Cons r rows)
  then show ?case
    by (auto split: prod.splits sum.splits dest: row_transaction_valid)
qed

lemma load_transactions_valid:
  assumes "load_transactions d = Inr res" and "t \<in> set (fst res)"
  shows "valid_txn t"
proof (cases "data_file d")
  case (WithHeader rows)
  with assms show ?thesis
    by (auto simp: load_transactions_def dest: load_rows_valid)
qed (use assms in \<open>auto simp: load_transactions_def split: if_splits\<close>)

lemma lower_income: "lower ''income'' = ''income''"
  by code_simp

lemma lower_expense: "lower ''expense'' = ''expense''"
  by code_simp

text \<open>A row that \<^verbatim>\<open>delete_transaction\<close> wrote reads back as the transaction it came from.\<close>

lemma row_transaction_to_row: "valid_txn t \<Longrightarrow> row_transaction (to_row t) = Inr t"
  by (auto simp: valid_txn_def to_row_def row_transaction_def Transaction_Inr_iff
      lower_income lower_expense)

lemma load_rows_to_row: "\<forall>t\<in>set ts. valid_txn t \<Longrightarrow> load_rows (map to_row ts) = (ts, [])"
  by (induction ts) (auto simp: row_transaction_to_row)

subsection \<open>Two example rows\<close>

text \<open>
  A row with the amount "-5", which the constructor refuses, and a row it accepts, whose
  amount is text and whose type is capitalised.
\<close>

lemma strptime_examples:
  "strptime ''2024-01-15'' = Some (2024, 1, 15)"
  "strptime ''2024-01-16'' = Some (2024, 1, 16)"
  "strptime ''2024-02-01'' = Some (2024, 2, 1)"
  by (simp_all add: strptime_def match_month_def match_day_def is_digit_def digit_val_def
      digits_nat_def days_in_month_def isleap_def)

lemma float_of_string_examples:
  "float_of_string ''-5'' = Inr (Fin (- 5))"
  "float_of_string ''40.5'' = Inr (Fin (81 / 2))"
  "float_of_string ''1000'' = Inr (Fin 1000)"
  "float_of_string ''400'' = Inr (Fin 400)"
  "float_of_string ''100'' = Inr (Fin 100)"
  by (simp_all add: float_of_string_def take_sign_def strip_def is_space_def lower_def
      lower_char_def parse_number_def is_digit_def parse_exponent_def digits_nat_def
      digit_val_def pow10_def)

lemma lower_examples:
  "lower ''Expense'' = ''expense''"
  "lower ''Income'' = ''income''"
  by code_simp+

lemma row_transaction_refused:
  "row_transaction
     \<lparr>row_id = ''u1'', row_date = ''2024-01-15'', row_amount = PyStr ''-5'',
      row_category = ''Food'', row_type = ''expense'', row_description = ''''\<rparr>
   = Inl (ValueError AmountPositive)"
  by (simp add: row_transaction_def Transaction_def validate_inputs_def strptime_examples
      float_of_string_examples)

lemma row_transaction_accepted:
  "row_transaction
     \<lparr>row_id = ''u2'', row_date = ''2024-01-16'', row_amount = PyStr ''40.5'',
      row_category = ''Food'', row_type = ''Expense'', row_description = ''''\<rparr>
   = Inr \<lparr>trans_id = ''u2'', date = ''2024-01-16'', amount = Fin (81 / 2),
          category = ''Food'', trans_type = ''expense'', description = ''''\<rparr>"
  by (simp add: row_transaction_def Transaction_def validate_inputs_def strptime_examples
      float_of_string_examples lower_examples)





text \<open>
  C6. Whenever the load succeeds and the file can be written, \<^verbatim>\<open>delete_transaction\<close>
  returns True, whether or not a transaction has the id; a second call with the same id
  returns True again and leaves the store exactly as the first call left it.
\<close>

theorem delete_twice_idempotent:
  assumes "load_transactions d = Inr res" and "\<not> read_only d"
  shows "\<exists>d1. delete_transaction tid d = (Inr True, d1)
            \<and> delete_transaction tid d1 = (Inr True, d1)"
proof -
  obtain ts ws where res: "res = (ts, ws)" by (cases res)
  let ?ts = "filter (\<lambda>t. trans_id t \<noteq> tid) ts"
  let ?d1 = "d\<lparr>data_file := WithHeader (map to_row ?ts)\<rparr>"
  have first: "delete_transaction tid d = (Inr True, ?d1)"
    using assms res by (simp add: delete_transaction_def)
  have "\<forall>t\<in>set ?ts. valid_txn t"
    using load_transactions_valid [OF assms(1)] res by simp
  then have "load_transactions ?d1 = Inr (?ts, [])"
    by (simp add: load_transactions_def load_rows_to_row)
  then have "delete_transaction tid ?d1 = (Inr True, ?d1)"
    using assms(2) by (simp add: delete_transaction_def)
  with first show ?thesis by blast
qed

text \<open>On the two example rows, deleting the id of the accepted row, twice.\<close>

theorem delete_twice_idempotent_witness:
  "delete_transaction ''u2''
     \<lparr>data_file = WithHeader
        [\<lparr>row_id = ''u1'', row_date = ''2024-01-15'', row_amount = PyStr ''-5'',
          row_category = ''Food'', row_type = ''expense'', row_description = ''''\<rparr>,
         \<lparr>row_id = ''u2'', row_date = ''2024-01-16'', row_amount = PyStr ''40.5'',
          row_category = ''Food'', row_type = ''Expense'', row_description = ''''\<rparr>],
      budget_file = Some [], read_only = False\<rparr>
     = (Inr True, \<lparr>data_file = WithHeader [], budget_file = Some [], read_only = False\<rparr>)
   \<and> delete_transaction ''u2''
       \<lparr>data_file = WithHeader [], budget_file = Some [], read_only = False\<rparr>
     = (Inr True, \<lparr>data_file = WithHeader [], budget_file = Some [], read_only = False\<rparr>)"
proof -
  let ?bad = "\<lparr>row_id = ''u1'', row_date = ''2024-01-15'', row_amount = PyStr ''-5'',
          row_category = ''Food'', row_type = ''expense'', row_description = ''''\<rparr>"
  let ?good = "\<lparr>row_id = ''u2'', row_date = ''2024-01-16'', row_amount = PyStr ''40.5'',
          row_category = ''Food'', row_type = ''Expense'', row_description = ''''\<rparr>"
  let ?d = "\<lparr>data_file = WithHeader [?bad, ?good], budget_file = Some [], read_only = False\<rparr>"
  have l: "load_transactions ?d = Inr (load_rows [?bad, ?good])"
    by (simp add: load_transactions_def)
  have w: "\<not> read_only ?d" by simp
  have first: "delete_transaction ''u2'' ?d
      = (Inr True, \<lparr>data_file = WithHeader [], budget_file = Some [], read_only = False\<rparr>)"
    by (simp add: delete_transaction_def load_transactions_def row_transaction_refused
        row_transaction_accepted)
  from delete_twice_idempotent [OF l w, of "''u2''"] first show ?thesis
    by auto
qed

section \<open>BudgetManager.set_budget\<close>

subsection \<open>The dict of budgets\<close>

lemma dict_set_keys:
  "map fst (dict_set kvs k v) =
     (if k \<in> fst ` set kvs then map fst kvs else map fst kvs @ [k])"
  by (induction kvs) force+

lemma dict_set_distinct:
  "distinct (map fst kvs) \<Longrightarrow> distinct (map fst (dict_set kvs k v))"
  by (simp add: dict_set_keys)

lemma dict_set_subset: "set (dict_set kvs k v) \<subseteq> insert (k, v) (set kvs)"
  by (induction kvs) (auto split: if_splits)

lemma dict_set_at_key:
  "distinct (map fst kvs) \<Longrightarrow> filter (\<lambda>p. fst p = k) (dict_set kvs k v) = [(k, v)]"
proof (induction kvs)
  case Nil
  then show ?case by simp
next
  case (Cons p kvs)
  obtain k' v' where p: "p = (k', v')" by (cases p)
  show ?case
  proof (cases "k' = k")
    case True
    with Cons.prems p have "k \<notin> fst ` set kvs" by auto
    then have "filter (\<lambda>p. fst p = k) kvs = []"
      by (auto simp: filter_empty_conv)
    with True p show ?thesis by simp
  next
    case False
    with Cons p show ?thesis by simp
  qed
qed

lemma keyed_dict_set:
  assumes "keyed B kvs" and "budget_category b = k" and "b \<in> B"
  shows "keyed B (dict_set kvs k b)"
  using assms dict_set_subset [of kvs k b]
  by (auto simp: keyed_def dict_set_distinct)

lemma keyed_foldl:
  "keyed B kvs \<Longrightarrow> set bs \<subseteq> B \<Longrightarrow>
     keyed B (foldl (\<lambda>m x. dict_set m (budget_category x) x) kvs bs)"
  by (induction bs arbitrary: kvs) (auto simp: keyed_dict_set)

lemma keyed_budget_dict: "keyed (set bs) (budget_dict bs)"
  unfolding budget_dict_def by (rule keyed_foldl) (simp_all add: keyed_def)

subsection \<open>Reading budgets back\<close>

lemma load_budget_rows_valid: "b \<in> set (fst (load_budget_rows rows)) \<Longrightarrow> valid_budget b"
proof (induction rows arbitrary: b)
  case Nil
  then show ?case by simp
next
  case (Cons r rows)
  then show ?case
    by (auto simp: Budget_Inr_iff valid_budget_def split: prod.splits sum.splits)
qed

lemma load_budgets_valid: "b \<in> set (fst (load_budgets d)) \<Longrightarrow> valid_budget b"
  by (auto simp: load_budgets_def dest: load_budget_rows_valid split: option.splits)

lemma Budget_budget_to_row:
  "valid_budget b \<Longrightarrow> Budget (brow_category (budget_to_row b)) (brow_limit (budget_to_row b)) = Inr b"
  by (simp add: valid_budget_def budget_to_row_def Budget_Inr_iff)

lemma load_budget_rows_to_row:
  "\<forall>b\<in>set bs. valid_budget b \<Longrightarrow> load_budget_rows (map budget_to_row bs) = (bs, [])"
  by (induction bs) (auto simp: Budget_budget_to_row)

text \<open>
  What a successful \<^verbatim>\<open>set_budget\<close> leaves: the file holds the rows of the dict's values,
  which read back as those budgets.
\<close>

lemma set_budget_Inr:
  assumes "set_budget cat lmt d = (Inr b, d')"
  shows "Budget cat lmt = Inr b"
    and "budget_file d' = Some (map (budget_to_row \<circ> snd) (dict_set (budget_dict (fst (load_budgets d))) cat b))"
    and "fst (load_budgets d') = map snd (dict_set (budget_dict (fst (load_budgets d))) cat b)"
    and "keyed (insert b (set (fst (load_budgets d)))) (dict_set (budget_dict (fst (load_budgets d))) cat b)"
proof -
  let ?kvs = "dict_set (budget_dict (fst (load_budgets d))) cat b"
  from assms show b: "Budget cat lmt = Inr b"
    by (auto simp: set_budget_def Let_def split: sum.splits if_splits)
  from assms show fl: "budget_file d' = Some (map (budget_to_row \<circ> snd) ?kvs)"
    by (auto simp: set_budget_def Let_def split: sum.splits if_splits)
  from b have cat: "budget_category b = cat" and vb: "valid_budget b"
    by (auto simp: Budget_Inr_iff valid_budget_def)
  have "keyed (insert b (set (fst (load_budgets d)))) (budget_dict (fst (load_budgets d)))"
    using keyed_budget_dict [of "fst (load_budgets d)"] by (auto simp: keyed_def)
  then show k: "keyed (insert b (set (fst (load_budgets d)))) ?kvs"
    using cat by (intro keyed_dict_set) simp_all
  have "\<forall>x\<in>set (map snd ?kvs). valid_budget x"
    using k vb load_budgets_valid [of _ d] by (auto simp: keyed_def)
  then have "load_budget_rows (map budget_to_row (map snd ?kvs)) = (map snd ?kvs, [])"
    by (rule load_budget_rows_to_row)
  with fl show "fst (load_budgets d') = map snd ?kvs"
    by (simp add: load_budgets_def)
qed

lemma set_budget_Inl: "set_budget cat lmt d = (Inl e, d') \<Longrightarrow> d' = d"
  by (auto simp: set_budget_def Let_def split: sum.splits if_splits)

lemma keyed_categories: "keyed B kvs \<Longrightarrow> map budget_category (map snd kvs) = map fst kvs"
  by (induction kvs) (auto simp: keyed_def)

lemma set_budget_success:
  assumes "set_budget cat lmt d = (Inr b, d')"
  shows "one_per_category d'"
    and "filter (\<lambda>x. budget_category x = cat) (fst (load_budgets d')) = [b]"
    and "py_float lmt = Inr (limit b)"
    and "\<exists>rows. budget_file d' = Some rows \<and> distinct (map brow_category rows)"
proof -
  let ?kvs = "dict_set (budget_dict (fst (load_budgets d))) cat b"
  note s = set_budget_Inr [OF assms]
  have cats: "map budget_category (map snd ?kvs) = map fst ?kvs"
    using s(4) by (rule keyed_categories)
  have dist: "distinct (map fst ?kvs)"
    using s(4) by (simp add: keyed_def)
  show "one_per_category d'"
    unfolding one_per_category_def s(3) cats by (rule dist)
  have keys: "\<forall>p\<in>set ?kvs. budget_category (snd p) = fst p"
    using s(4) by (simp add: keyed_def)
  have "distinct (map fst (budget_dict (fst (load_budgets d))))"
    using keyed_budget_dict [of "fst (load_budgets d)"] by (simp add: keyed_def)
  then have at: "filter (\<lambda>p. fst p = cat) ?kvs = [(cat, b)]"
    by (rule dict_set_at_key)
  have "filter (\<lambda>x. budget_category x = cat) (map snd ?kvs)
      = map snd (filter (\<lambda>p. fst p = cat) ?kvs)"
    using keys by (simp add: filter_map comp_def cong: filter_cong)
  with at show "filter (\<lambda>x. budget_category x = cat) (fst (load_budgets d')) = [b]"
    by (simp add: s(3))
  from s(1) show "py_float lmt = Inr (limit b)"
    by (auto simp: Budget_Inr_iff)
  have "map brow_category (map (budget_to_row \<circ> snd) ?kvs) = map budget_category (map snd ?kvs)"
    by (simp add: budget_to_row_def comp_def)
  also note cats
  finally have "distinct (map brow_category (map (budget_to_row \<circ> snd) ?kvs))"
    using dist by (simp only:)
  with s(2) show "\<exists>rows. budget_file d' = Some rows \<and> distinct (map brow_category rows)"
    by blast
qed

lemma set_budget_preserves: "one_per_category d \<Longrightarrow> one_per_category (snd (set_budget cat lmt d))"
proof (cases "set_budget cat lmt d")
  case (Pair r d')
  assume inv: "one_per_category d"
  show ?thesis
  proof (cases r)
    case (Inl e)
    with Pair inv show ?thesis using set_budget_Inl by fastforce
  next
    case (Inr b)
    with Pair show ?thesis using set_budget_success(1) by fastforce
  qed
qed

lemma set_budgets_preserve: "one_per_category d \<Longrightarrow> one_per_category (set_budgets calls d)"
proof (induction calls arbitrary: d)
  case Nil
  then show ?case by simp
next
  case (Cons c calls)
  obtain cat lmt where "c = (cat, lmt)" by (cases c)
  with Cons show ?case by (simp add: set_budget_preserves)
qed

text \<open>
  C5. A \<^verbatim>\<open>set_budget\<close> call that returns leaves a store that loads to budgets of
  pairwise different categories, exactly one of them of the category set, and that one
  is the budget returned, with \<^verbatim>\<open>float(limit)\<close> as its limit; the rows of the file have
  pairwise different categories too. A call that raises leaves the store as it was, so
  any sequence of calls keeps one budget per category once the store has it (the empty
  store of \<^verbatim>\<open>init_files\<close> has). In particular, of two calls in a row for one category the
  second decides the limit.
\<close>

theorem set_budget_one_per_category:
  "(set_budget cat lmt d = (Inr b, d') \<longrightarrow>
      one_per_category d'
      \<and> filter (\<lambda>x. budget_category x = cat) (fst (load_budgets d')) = [b]
      \<and> py_float lmt = Inr (limit b)
      \<and> (\<exists>rows. budget_file d' = Some rows \<and> distinct (map brow_category rows)))
   \<and> (one_per_category d \<longrightarrow> one_per_category (set_budgets calls d))
   \<and> (set_budget cat l2 (snd (set_budget cat l1 d)) = (Inr b2, d2) \<longrightarrow>
        filter (\<lambda>x. budget_category x = cat) (fst (load_budgets d2)) = [b2]
        \<and> py_float l2 = Inr (limit b2))"
  using set_budget_success [of cat lmt d b d'] set_budgets_preserve [of d calls]
    set_budget_success(2,3) [of cat l2 "snd (set_budget cat l1 d)" b2 d2]
  by blast

text \<open>
  Two calls for "Food" on the empty store of \<^verbatim>\<open>init_files\<close>, with the limits "100" and
  250.0: one budget for "Food" is left, with the limit 250.
\<close>

theorem set_budget_one_per_category_witness:
  "set_budget ''Food'' (PyFloat (Fin 250))
     (snd (set_budget ''Food'' (PyStr ''100'')
        \<lparr>data_file = WithHeader [], budget_file = Some [], read_only = False\<rparr>))
     = (Inr \<lparr>budget_category = ''Food'', limit = Fin 250\<rparr>,
        \<lparr>data_file = WithHeader [],
         budget_file = Some [\<lparr>brow_category = ''Food'', brow_limit = PyFloat (Fin 250)\<rparr>],
         read_only = False\<rparr>)
   \<and> filter (\<lambda>x. budget_category x = ''Food'')
       (fst (load_budgets
          \<lparr>data_file = WithHeader [],
           budget_file = Some [\<lparr>brow_category = ''Food'', brow_limit = PyFloat (Fin 250)\<rparr>],
           read_only = False\<rparr>))
     = [\<lparr>budget_category = ''Food'', limit = Fin 250\<rparr>]
   \<and> one_per_category \<lparr>data_file = WithHeader [], budget_file = Some [], read_only = False\<rparr>
   \<and> one_per_category
       (set_budgets [(''Food'', PyStr ''100''), (''Food'', PyFloat (Fin 250))]
          \<lparr>data_file = WithHeader [], budget_file = Some [], read_only = False\<rparr>)"
proof -
  let ?d0 = "\<lparr>data_file = WithHeader [], budget_file = Some [], read_only = False\<rparr>"
  let ?d1 = "\<lparr>data_file = WithHeader [],
         budget_file = Some [\<lparr>brow_category = ''Food'', brow_limit = PyFloat (Fin 100)\<rparr>],
         read_only = False\<rparr>"
  let ?d2 = "\<lparr>data_file = WithHeader [],
         budget_file = Some [\<lparr>brow_category = ''Food'', brow_limit = PyFloat (Fin 250)\<rparr>],
         read_only = False\<rparr>"
  have first: "set_budget ''Food'' (PyStr ''100'') ?d0
      = (Inr \<lparr>budget_category = ''Food'', limit = Fin 100\<rparr>, ?d1)"
    by (simp add: set_budget_def Budget_def budget_validate_inputs_def load_budgets_def
        budget_dict_def budget_to_row_def float_of_string_examples)
  have second: "set_budget ''Food'' (PyFloat (Fin 250)) (snd (set_budget ''Food'' (PyStr ''100'') ?d0))
      = (Inr \<lparr>budget_category = ''Food'', limit = Fin 250\<rparr>, ?d2)"
    unfolding first
    by (simp add: set_budget_def Budget_def budget_validate_inputs_def load_budgets_def
        budget_dict_def budget_to_row_def)
  have start: "one_per_category ?d0"
    by (simp add: one_per_category_def load_budgets_def)
  from set_budget_one_per_category
    [of "''Food''" "PyFloat (Fin 250)" ?d0 "\<lparr>budget_category = ''Food'', limit = Fin 250\<rparr>" ?d2
      "[(''Food'', PyStr ''100''), (''Food'', PyFloat (Fin 250))]"
      "PyFloat (Fin 250)" "PyStr ''100''" "\<lparr>budget_category = ''Food'', limit = Fin 250\<rparr>" ?d2]
    second start
  show ?thesis by blast
qed

section \<open>FinanceAnalyzer.get_financial_summary\<close>










section \<open>FinanceAnalyzer.generate_monthly_report\<close>









end
